theory Spec2Isabelle
  imports Complex_Main "HOL-Library.Multiset"
begin

section \<open>JavaScript values\<close>

text \<open>
  The values that flow through the front end: identifiers, messages, decoded JSON bodies,
  \<open>null\<close> and \<open>undefined\<close>. Strings are lists of code units below 256. Of a number the
  functions of this part test only whether it is falsy and take only its string form, so
  \<open>JNum\<close> holds the text that \<open>Number.prototype.toString\<close> gives the number, such as
  \<open>42\<close>, \<open>0.5\<close>, \<open>1e+21\<close>, \<open>NaN\<close> or \<open>Infinity\<close>; both zeros print \<open>0\<close>. (Numbers that
  are compared or multiplied have the type \<open>number\<close> below.) An object is the list of its
  own properties in insertion order, with distinct keys; no value is a function.
\<close>

datatype jsval =
    JUndefined
  | JNull
  | JBool bool
  | JNum string
  | JStr string
  | JArr "jsval list"
  | JObj "(string \<times> jsval) list"

text \<open>ToBoolean: what \<open>if (v)\<close>, \<open>!v\<close> and \<open>v || w\<close> test.\<close>

fun truthy :: "jsval \<Rightarrow> bool" where
  "truthy JUndefined = False"
| "truthy JNull = False"
| "truthy (JBool b) = b"
| "truthy (JNum n) = (n \<noteq> ''0'' \<and> n \<noteq> ''NaN'')"
| "truthy (JStr s) = (s \<noteq> [])"
| "truthy (JArr xs) = True"
| "truthy (JObj kvs) = True"

text \<open>\<open>a || b\<close>: the left operand when it is truthy, the right one otherwise.\<close>

definition js_or :: "jsval \<Rightarrow> jsval \<Rightarrow> jsval" where
  "js_or a b = (if truthy a then a else b)"

text \<open>The own property \<open>k\<close> of a value, when it has one.\<close>

fun own :: "jsval \<Rightarrow> string \<Rightarrow> jsval option" where
  "own (JObj kvs) k = map_of kvs k"
| "own v k = None"

text \<open>
  \<open>v.k\<close> for a value \<open>v\<close> that is neither \<open>null\<close> nor \<open>undefined\<close> and a name \<open>k\<close> that is
  no built-in property: the own property, \<open>undefined\<close> when there is none. Every use below
  is behind a truthiness test of \<open>v\<close>, or is \<open>opt_prop\<close>.
\<close>

definition get_prop :: "jsval \<Rightarrow> string \<Rightarrow> jsval" where
  "get_prop v k = (case own v k of Some x \<Rightarrow> x | None \<Rightarrow> JUndefined)"

text \<open>\<open>v?.k\<close>: \<open>undefined\<close> when \<open>v\<close> is \<open>null\<close> or \<open>undefined\<close>.\<close>

definition opt_prop :: "jsval \<Rightarrow> string \<Rightarrow> jsval" where
  "opt_prop v k = (if v = JUndefined \<or> v = JNull then JUndefined else get_prop v k)"

fun join :: "string \<Rightarrow> string list \<Rightarrow> string" where
  "join sep [] = []"
| "join sep [x] = x"
| "join sep (x # y # ys) = x @ sep @ join sep (y # ys)"

text \<open>
  ToString, as \<open>new Error(v)\<close> applies it; \<open>None\<close> when the conversion throws a
  \<open>TypeError\<close>. An array is joined with commas, \<open>null\<close> and \<open>undefined\<close> elements
  giving the empty string. An object inherits \<open>Object.prototype.toString\<close> unless it has
  an own property \<open>toString\<close>; that one is no function, so it is passed over, \<open>valueOf\<close>
  gives no primitive either, and the conversion throws.
\<close>

fun ToString :: "jsval \<Rightarrow> string option" where
  "ToString JUndefined = Some ''undefined''"
| "ToString JNull = Some ''null''"
| "ToString (JBool b) = Some (if b then ''true'' else ''false'')"
| "ToString (JNum n) = Some n"
| "ToString (JStr s) = Some s"
| "ToString (JArr xs) =
     map_option (join '','')
       (those (map (\<lambda>x. if x = JUndefined \<or> x = JNull then Some [] else ToString x) xs))"
| "ToString (JObj kvs) =
     (if ''toString'' \<in> fst ` set kvs then None else Some ''[object Object]'')"

text \<open>
  A thrown exception. \<open>Error m\<close> is an \<open>Error\<close> object whose \<open>message\<close> is \<open>m\<close>;
  \<open>TypeError\<close> is what a property read of \<open>null\<close> or \<open>undefined\<close> and a failed
  conversion throw, with the message of the engine.
\<close>

datatype js_error = Error string | TypeError string

fun error_message :: "js_error \<Rightarrow> jsval" where
  "error_message (Error m) = JStr m"
| "error_message (TypeError m) = JStr m"

text \<open>
  What \<open>throw new Error(v)\<close> throws: the \<open>Error\<close> whose message is \<open>ToString v\<close>, empty
  when \<open>v\<close> is \<open>undefined\<close>; the \<open>TypeError\<close> of the conversion when that throws.
\<close>

definition throw_new_Error :: "jsval \<Rightarrow> js_error" where
  "throw_new_Error v =
     (if v = JUndefined then Error []
      else (case ToString v of
              Some m \<Rightarrow> Error m
            | None \<Rightarrow> TypeError ''Cannot convert object to primitive value''))"

section \<open>services/api.js\<close>

text \<open>
  What the network does with a request is an input of the model: the promise of the HTTP
  client is fulfilled with a response object or rejected with the client's error object,
  whose \<open>response\<close>, \<open>request\<close> and \<open>message\<close> the response interceptor reads.
\<close>

record axios_error =
  response :: jsval
  request :: jsval
  message :: jsval

datatype http_outcome = Fulfilled jsval | Rejected axios_error

record http_request =
  http_method :: string
  url :: string
  data :: jsval

text \<open>The response interceptor: \<open>(response) => response.data\<close>.\<close>

definition response_fulfilled :: "jsval \<Rightarrow> jsval" where
  "response_fulfilled resp = get_prop resp ''data''"

text \<open>The response interceptor's error handler; it throws in each of its three branches.\<close>

definition response_rejected :: "axios_error \<Rightarrow> js_error" where
  "response_rejected error =
     (if truthy (response error) then
        (let errorMessage =
               js_or (js_or (opt_prop (get_prop (response error) ''data'') ''detail'')
                            (opt_prop (get_prop (response error) ''data'') ''message''))
                     (JStr ''Server error'')
         in throw_new_Error errorMessage)
      else if truthy (request error) then
        throw_new_Error (JStr ''No response from server. Please check your connection.'')
      else
        throw_new_Error (js_or (message error) (JStr ''An unexpected error occurred'')))"

text \<open>\<open>await api.post(...)\<close>, \<open>await api.get(...)\<close>, \<open>await api.delete(...)\<close>.\<close>

definition api_request :: "http_outcome \<Rightarrow> js_error + jsval" where
  "api_request out =
     (case out of
        Fulfilled resp \<Rightarrow> Inr (response_fulfilled resp)
      | Rejected error \<Rightarrow> Inl (response_rejected error))"

text \<open>\<open>try { ... } catch (error) { throw error; }\<close>\<close>

definition rethrow :: "js_error + 'a \<Rightarrow> js_error + 'a" where
  "rethrow r = (case r of Inl error \<Rightarrow> Inl error | Inr v \<Rightarrow> Inr v)"

definition uploadResume :: "jsval \<Rightarrow> http_outcome \<Rightarrow> http_request \<times> (js_error + jsval)" where
  "uploadResume formData out =
     (\<lparr>http_method = ''POST'', url = ''/api/v1/upload-resume'', data = formData\<rparr>,
      rethrow (api_request out))"

definition uploadJobDescription ::
  "jsval \<Rightarrow> http_outcome \<Rightarrow> http_request \<times> (js_error + jsval)" where
  "uploadJobDescription formData out =
     (\<lparr>http_method = ''POST'', url = ''/api/v1/upload-job'', data = formData\<rparr>,
      rethrow (api_request out))"

text \<open>
  \<open>analyzeResume(resumeId, jdId, targetRole = null)\<close>: the default replaces an
  \<open>undefined\<close> argument; \<open>target_role\<close> is added to the payload after the two ids.
\<close>

definition analyze_payload :: "jsval \<Rightarrow> jsval \<Rightarrow> jsval \<Rightarrow> jsval" where
  "analyze_payload resumeId jdId targetRole0 =
     (let targetRole = (if targetRole0 = JUndefined then JNull else targetRole0);
          payload = [(''resume_id'', resumeId), (''jd_id'', jdId)]
      in if truthy targetRole then JObj (payload @ [(''target_role'', targetRole)])
         else JObj payload)"

definition analyzeResume ::
  "jsval \<Rightarrow> jsval \<Rightarrow> jsval \<Rightarrow> http_outcome \<Rightarrow> http_request \<times> (js_error + jsval)" where
  "analyzeResume resumeId jdId targetRole out =
     (\<lparr>http_method = ''POST'', url = ''/api/v1/analyze'',
       data = analyze_payload resumeId jdId targetRole\<rparr>,
      rethrow (api_request out))"

text \<open>
  \<open>getHistory(limit = 20, offset = 0)\<close> returns \<open>response.items || []\<close>; reading \<open>items\<close>
  of a \<open>null\<close> or \<open>undefined\<close> body throws.
\<close>

definition getHistory :: "http_outcome \<Rightarrow> http_request \<times> (js_error + jsval)" where
  "getHistory out =
     (\<lparr>http_method = ''GET'', url = ''/api/v1/history'',
       data = JObj [(''limit'', JNum ''20''), (''offset'', JNum ''0'')]\<rparr>,
      rethrow
        (case api_request out of
           Inl error \<Rightarrow> Inl error
         | Inr resp \<Rightarrow>
             if resp = JUndefined then
               Inl (TypeError ''Cannot read properties of undefined (reading 'items')'')
             else if resp = JNull then
               Inl (TypeError ''Cannot read properties of null (reading 'items')'')
             else Inr (js_or (get_prop resp ''items'') (JArr []))))"

definition getAnalysis :: "string \<Rightarrow> http_outcome \<Rightarrow> http_request \<times> (js_error + jsval)" where
  "getAnalysis analysisId out =
     (\<lparr>http_method = ''GET'', url = ''/api/v1/analysis/'' @ analysisId, data = JUndefined\<rparr>,
      rethrow (api_request out))"

definition deleteAnalysis :: "string \<Rightarrow> http_outcome \<Rightarrow> http_request \<times> (js_error + jsval)" where
  "deleteAnalysis analysisId out =
     (\<lparr>http_method = ''DELETE'', url = ''/api/v1/analysis/'' @ analysisId, data = JUndefined\<rparr>,
      rethrow (api_request out))"

definition deleteDocument :: "string \<Rightarrow> http_outcome \<Rightarrow> http_request \<times> (js_error + jsval)" where
  "deleteDocument documentId out =
     (\<lparr>http_method = ''DELETE'', url = ''/api/v1/document/'' @ documentId, data = JUndefined\<rparr>,
      rethrow (api_request out))"

definition healthCheck :: "http_outcome \<Rightarrow> http_request \<times> (js_error + jsval)" where
  "healthCheck out =
     (\<lparr>http_method = ''GET'', url = ''/api/v1/health'', data = JUndefined\<rparr>,
      rethrow (api_request out))"

definition getSystemStats :: "http_outcome \<Rightarrow> http_request \<times> (js_error + jsval)" where
  "getSystemStats out =
     (\<lparr>http_method = ''GET'', url = ''/api/v1/stats'', data = JUndefined\<rparr>,
      rethrow (api_request out))"

definition getApiInfo :: "http_outcome \<Rightarrow> http_request \<times> (js_error + jsval)" where
  "getApiInfo out =
     (\<lparr>http_method = ''GET'', url = ''/api'', data = JUndefined\<rparr>,
      rethrow (api_request out))"

text \<open>
  The message of the thrown \<open>Error\<close> as the specification words it: \<open>response.data.detail\<close>,
  else \<open>response.data.message\<close>, else \<open>'Server error'\<close> when the server responded; the
  no-response text when only a request was made; otherwise the underlying error's message
  or the fallback text. "Else" is JavaScript's: the next candidate when this one is falsy.
\<close>

definition spec_error_message :: "axios_error \<Rightarrow> jsval" where
  "spec_error_message err =
     (if truthy (response err) then
        (if truthy (opt_prop (get_prop (response err) ''data'') ''detail'')
         then opt_prop (get_prop (response err) ''data'') ''detail''
         else if truthy (opt_prop (get_prop (response err) ''data'') ''message'')
         then opt_prop (get_prop (response err) ''data'') ''message''
         else JStr ''Server error'')
      else if truthy (request err)
      then JStr ''No response from server. Please check your connection.''
      else if truthy (message err) then message err
      else JStr ''An unexpected error occurred'')"

section \<open>contexts/AnalysisContext.jsx\<close>

record state =
  resume :: jsval
  jobDescription :: jsval
  analysis :: jsval
  history :: jsval
  loading :: jsval
  error :: jsval
  currentStep :: jsval

record action =
  type :: string
  payload :: jsval

definition initialState :: state where
  "initialState =
     \<lparr>resume = JNull, jobDescription = JNull, analysis = JNull, history = JArr [],
      loading = JBool False, error = JNull, currentStep = JStr ''upload''\<rparr>"

definition analysisReducer :: "state \<Rightarrow> action \<Rightarrow> state" where
  "analysisReducer state action =
     (if type action = ''SET_RESUME'' then
        state\<lparr>resume := payload action, error := JNull\<rparr>
      else if type action = ''SET_JOB_DESCRIPTION'' then
        state\<lparr>jobDescription := payload action, error := JNull\<rparr>
      else if type action = ''SET_ANALYSIS'' then
        state\<lparr>analysis := payload action, currentStep := JStr ''results'', error := JNull\<rparr>
      else if type action = ''SET_LOADING'' then
        state\<lparr>loading := payload action\<rparr>
      else if type action = ''SET_ERROR'' then
        state\<lparr>error := payload action, loading := JBool False\<rparr>
      else if type action = ''SET_CURRENT_STEP'' then
        state\<lparr>currentStep := payload action\<rparr>
      else if type action = ''SET_HISTORY'' then
        state\<lparr>history := payload action\<rparr>
      else if type action = ''RESET'' then
        initialState\<lparr>history := history state\<rparr>
      else if type action = ''CLEAR_ERROR'' then
        state\<lparr>error := JNull\<rparr>
      else state)"

text \<open>\<open>dispatch({ type: t, payload: p })\<close>; an action without payload has it \<open>undefined\<close>.\<close>

definition dispatch :: "state \<Rightarrow> string \<Rightarrow> jsval \<Rightarrow> state" where
  "dispatch state t p = analysisReducer state \<lparr>type = t, payload = p\<rparr>"

text \<open>\<open>loadHistory\<close> logs a failure and swallows it.\<close>

definition loadHistory :: "state \<Rightarrow> http_outcome \<Rightarrow> http_request list \<times> state" where
  "loadHistory state out =
     (case getHistory out of
        (req, Inr h) \<Rightarrow> ([req], dispatch state ''SET_HISTORY'' h)
      | (req, Inl e) \<Rightarrow> ([req], state))"

text \<open>
  \<open>performAnalysis(targetRole = null)\<close>. The result is what the call returns or throws,
  the HTTP requests it issued in order, and the state after its dispatches. The outcomes of
  the analyze request and of the history request are inputs, read only if the request is
  made; nothing else is dispatched while the call waits for them. First the \<open>try\<close> block,
  then the function with its \<open>catch\<close> and \<open>finally\<close>.
\<close>

definition performAnalysis_try ::
  "state \<Rightarrow> jsval \<Rightarrow> http_outcome \<Rightarrow> http_outcome
    \<Rightarrow> (js_error + jsval) \<times> http_request list \<times> state" where
  "performAnalysis_try state targetRole analyzeOut historyOut =
     (if \<not> truthy (resume state) \<or> \<not> truthy (jobDescription state) then
        (Inl (throw_new_Error (JStr ''Both resume and job description are required'')), [],
         state)
      else
        (let s1 = dispatch state ''SET_LOADING'' (JBool True);
             s2 = dispatch s1 ''SET_CURRENT_STEP'' (JStr ''analyzing'');
             s3 = dispatch s2 ''CLEAR_ERROR'' JUndefined;
             (req, res) = analyzeResume (get_prop (resume state) ''document_id'')
                            (get_prop (jobDescription state) ''document_id'')
                            targetRole analyzeOut
         in case res of
              Inl e \<Rightarrow> (Inl e, [req], s3)
            | Inr a \<Rightarrow>
                (let s4 = dispatch s3 ''SET_ANALYSIS'' a;
                     (hreqs, s5) = loadHistory s4 historyOut
                 in (Inr a, req # hreqs, s5))))"

definition performAnalysis ::
  "state \<Rightarrow> jsval \<Rightarrow> http_outcome \<Rightarrow> http_outcome
    \<Rightarrow> (js_error + jsval) \<times> http_request list \<times> state" where
  "performAnalysis state targetRole0 analyzeOut historyOut =
     (let targetRole = (if targetRole0 = JUndefined then JNull else targetRole0);
          (res, reqs, s) = performAnalysis_try state targetRole analyzeOut historyOut;
          s' = (case res of
                  Inl e \<Rightarrow>
                    dispatch (dispatch s ''SET_ERROR'' (error_message e))
                      ''SET_CURRENT_STEP'' (JStr ''upload'')
                | Inr a \<Rightarrow> s)
      in (res, reqs, dispatch s' ''SET_LOADING'' (JBool False)))"

definition reset :: "state \<Rightarrow> state" where
  "reset state = dispatch state ''RESET'' JUndefined"

definition clearError :: "state \<Rightarrow> state" where
  "clearError state = dispatch state ''CLEAR_ERROR'' JUndefined"

section \<open>Score bands: pages/HistoryPage.jsx and components/AnalysisResults.jsx\<close>

text \<open>
  A JavaScript number as the score comparisons see it: a finite value (every finite double
  is a rational), an infinity, or \<open>NaN\<close>, for which every comparison is false.
\<close>

datatype number = Finite rat | PosInf | NegInf | NaN

text \<open>\<open>x >= k\<close> and \<open>x < k\<close> for a numeric literal \<open>k\<close>.\<close>

fun ge :: "number \<Rightarrow> rat \<Rightarrow> bool" where
  "ge (Finite r) k = (k \<le> r)"
| "ge PosInf k = True"
| "ge NegInf k = False"
| "ge NaN k = False"

fun lt :: "number \<Rightarrow> rat \<Rightarrow> bool" where
  "lt (Finite r) k = (r < k)"
| "lt PosInf k = False"
| "lt NegInf k = True"
| "lt NaN k = False"

text \<open>
  Arithmetic on finite doubles. \<open>fl q\<close> is the double nearest to the rational \<open>q\<close>, ties
  to the even significand: 53 bits of significand, the spacing of the subnormal numbers
  below \<open>2 powi - 1022\<close>, and an infinity from \<open>2 powi 1024\<close> on.
\<close>

function bitlen :: "int \<Rightarrow> int" where
  "bitlen n = (if n \<le> 0 then 0 else 1 + bitlen (n div 2))"
  by pat_completeness auto
termination
  by (relation "measure nat") auto

definition round_half_even :: "rat \<Rightarrow> int" where
  "round_half_even q =
     (let f = \<lfloor>q\<rfloor>; d = q - of_int f
      in if d < 1 / 2 then f else if 1 / 2 < d then f + 1
         else if even f then f else f + 1)"

text \<open>For positive \<open>q\<close>, the \<open>e\<close> with \<open>2 powi e \<le> q < 2 powi (e + 1)\<close>.\<close>

definition exponent :: "rat \<Rightarrow> int" where
  "exponent q =
     (let (a, b) = quotient_of q; k = bitlen a - bitlen b
      in if 2 powi k \<le> q then k else k - 1)"

definition fl :: "rat \<Rightarrow> number" where
  "fl q =
     (if q = 0 then Finite 0
      else
        (let e = max (exponent \<bar>q\<bar>) (- 1022);
             ulp = 2 powi (e - 52);
             r = of_int (round_half_even (\<bar>q\<bar> / ulp)) * ulp
         in if 2 powi 1024 \<le> r then (if 0 < q then PosInf else NegInf)
            else Finite (if 0 < q then r else - r)))"

text \<open>\<open>x * y\<close> on finite doubles, and \<open>x - y\<close> on numbers.\<close>

definition js_times :: "rat \<Rightarrow> rat \<Rightarrow> number" where
  "js_times x y = fl (x * y)"

fun js_minus :: "number \<Rightarrow> number \<Rightarrow> number" where
  "js_minus NaN y = NaN"
| "js_minus x NaN = NaN"
| "js_minus (Finite x) (Finite y) = fl (x - y)"
| "js_minus (Finite x) PosInf = NegInf"
| "js_minus (Finite x) NegInf = PosInf"
| "js_minus PosInf PosInf = NaN"
| "js_minus PosInf y = PosInf"
| "js_minus NegInf NegInf = NaN"
| "js_minus NegInf y = NegInf"

text \<open>\<open>Math.round\<close>: the nearest integer, halves upwards; the two zeros are one.\<close>

fun Math_round :: "number \<Rightarrow> number" where
  "Math_round (Finite x) = Finite (of_int \<lfloor>x + 1 / 2\<rfloor>)"
| "Math_round PosInf = PosInf"
| "Math_round NegInf = NegInf"
| "Math_round NaN = NaN"

record history_item =
  analysis_id :: jsval
  resume_id :: jsval
  jd_id :: jsval
  score :: number
  created_at :: jsval

definition HistoryPage_getScoreColor :: "number \<Rightarrow> string" where
  "HistoryPage_getScoreColor s =
     (if ge s 80 then ''text-green-600 bg-green-100''
      else if ge s 60 then ''text-yellow-600 bg-yellow-100''
      else ''text-red-600 bg-red-100'')"

definition HistoryPage_getScoreBand :: "number \<Rightarrow> string" where
  "HistoryPage_getScoreBand s =
     (if ge s 80 then ''Strong'' else if ge s 60 then ''Moderate'' else ''Low'')"

text \<open>The three counters of the stats summary, beside \<open>history.length\<close>.\<close>

definition strongMatches :: "history_item list \<Rightarrow> nat" where
  "strongMatches h = length (filter (\<lambda>item. ge (score item) 80) h)"

definition moderateMatches :: "history_item list \<Rightarrow> nat" where
  "moderateMatches h = length (filter (\<lambda>item. ge (score item) 60 \<and> lt (score item) 80) h)"

definition lowMatches :: "history_item list \<Rightarrow> nat" where
  "lowMatches h = length (filter (\<lambda>item. lt (score item) 60) h)"

definition AnalysisResults_getScoreColor :: "number \<Rightarrow> string" where
  "AnalysisResults_getScoreColor s =
     (if ge s 80 then ''text-green-600''
      else if ge s 60 then ''text-yellow-600''
      else ''text-red-600'')"

definition AnalysisResults_getScoreBand :: "number \<Rightarrow> string" where
  "AnalysisResults_getScoreBand s =
     (if ge s 80 then ''Strong Match'' else if ge s 60 then ''Moderate Match'' else ''Low Match'')"

definition AnalysisResults_getScoreBandColor :: "number \<Rightarrow> string" where
  "AnalysisResults_getScoreBandColor s =
     (if ge s 80 then ''bg-green-100 text-green-800''
      else if ge s 60 then ''bg-yellow-100 text-yellow-800''
      else ''bg-red-100 text-red-800'')"

text \<open>A score in \<open>[0,100]\<close>.\<close>

fun in_0_100 :: "number \<Rightarrow> bool" where
  "in_0_100 (Finite r) = (0 \<le> r \<and> r \<le> 100)"
| "in_0_100 PosInf = False"
| "in_0_100 NegInf = False"
| "in_0_100 NaN = False"

section \<open>components/DocumentUpload.jsx\<close>




text \<open>\<open>s.split(sep)\<close> for a one-character separator: never an empty array.\<close>

fun split :: "char \<Rightarrow> string \<Rightarrow> string list" where
  "split sep [] = [] # []"
| "split sep (c # cs) =
     (if c = sep then [] # split sep cs
      else (case split sep cs of p # ps \<Rightarrow> (c # p) # ps | [] \<Rightarrow> [c] # []))"

text \<open>\<open>toLowerCase\<close> on code units below 256: A to Z, and the capitals of Latin-1.\<close>

definition lower :: "char \<Rightarrow> char" where
  "lower c =
     (let n = (of_char c :: nat)
      in if (65 \<le> n \<and> n \<le> 90) \<or> (192 \<le> n \<and> n \<le> 222 \<and> n \<noteq> 215)
         then char_of (n + 32) else c)"

definition toLowerCase :: "string \<Rightarrow> string" where
  "toLowerCase s = map lower s"

text \<open>\<open>xs.includes(x)\<close>\<close>

definition js_includes :: "string list \<Rightarrow> string \<Rightarrow> bool" where
  "js_includes xs x = (x \<in> set xs)"

record upload_file =
  file_name :: string
  file_size :: nat

text \<open>
  The component: its own state, and the two properties of its parent that the handlers
  read or set (\<open>acceptedTypes\<close>, \<open>showTextInput\<close>).
\<close>

record component =
  acceptedTypes :: "string list"
  dragActive :: bool
  selectedFile :: "upload_file option"
  textInput :: string
  showTextInput :: bool

text \<open>The decimal digits of a natural number: \<open>${maxSizeMB}\<close>, which is 6 or 3.\<close>

fun digits :: "nat \<Rightarrow> string" where
  "digits n =
     (if n < 10 then [''0123456789'' ! n]
      else digits (n div 10) @ [''0123456789'' ! (n mod 10)])"

text \<open>\<open>handleFile(file)\<close>: the alerts it raises, and the component afterwards.\<close>

definition handleFile :: "component \<Rightarrow> upload_file \<Rightarrow> string list \<times> component" where
  "handleFile c file =
     (let fileExtension = ''.'' @ toLowerCase (last (split (CHR ''.'') (file_name file)))
      in if \<not> js_includes (acceptedTypes c) fileExtension then
           ([''Invalid file type. Please upload: '' @ join '', '' (acceptedTypes c)], c)
         else
           (let maxSize = (if js_includes (acceptedTypes c) ''.pdf''
                           then 6 * 1024 * 1024 else 3 * 1024 * 1024 :: nat)
            in if file_size file > maxSize then
                 (let maxSizeMB = maxSize div (1024 * 1024)
                  in ([''File too large. Maximum size: '' @ digits maxSizeMB @ ''MB''], c))
               else ([], c\<lparr>selectedFile := Some file\<rparr>)))"




definition jobDescriptionUpload :: component where
  "jobDescriptionUpload =
     \<lparr>acceptedTypes = [''.pdf'', ''.txt''], dragActive = False, selectedFile = None,
      textInput = [], showTextInput = False\<rparr>"

section \<open>components/SkillGapChart.jsx\<close>

text \<open>
  An entry of \<open>matched_skills\<close>, \<open>missing_skills\<close> or \<open>nice_to_have_skills\<close>: the
  three properties the front end reads (\<open>name\<close>, \<open>confidence\<close> on a matched skill,
  \<open>importance\<close> on the others), and the canonical id that the specification's data model
  gives every entry; no function of the front end reads it. Confidence and importance are
  finite doubles. Of an analysis result only the three lists are modelled.
\<close>

record skill =
  canonical_id :: string
  name :: string
  confidence :: rat
  importance :: rat

record analysis_result =
  matched_skills :: "skill list"
  missing_skills :: "skill list"
  nice_to_have_skills :: "skill list"

record chart_row =
  row_name :: string
  row_importance :: number
  row_confidence :: number
  row_type :: string
  row_color :: string

text \<open>
  \<open>xs.sort(cmp)\<close>: the stable sort. \<open>ahead a b\<close> says that \<open>a\<close> may stay before \<open>b\<close>:
  the comparator's result for \<open>(a, b)\<close> is negative or zero. For a comparator that orders
  the elements consistently the stable sorted order is unique, and insertion gives it.
\<close>

fun insort_by :: "('a \<Rightarrow> 'a \<Rightarrow> bool) \<Rightarrow> 'a \<Rightarrow> 'a list \<Rightarrow> 'a list" where
  "insort_by ahead x [] = [x]"
| "insort_by ahead x (y # ys) =
     (if ahead x y then x # y # ys else y # insort_by ahead x ys)"

fun sort_by :: "('a \<Rightarrow> 'a \<Rightarrow> bool) \<Rightarrow> 'a list \<Rightarrow> 'a list" where
  "sort_by ahead [] = []"
| "sort_by ahead (x # xs) = insort_by ahead x (sort_by ahead xs)"

text \<open>
  The comparator's result read by \<open>sort\<close>: negative or zero, where \<open>NaN\<close> counts as zero.
  The chart's comparator is \<open>(a, b) => b.importance - a.importance\<close>.
\<close>

fun not_positive :: "number \<Rightarrow> bool" where
  "not_positive (Finite x) = (x \<le> 0)"
| "not_positive PosInf = False"
| "not_positive NegInf = True"
| "not_positive NaN = True"

definition by_importance :: "chart_row \<Rightarrow> chart_row \<Rightarrow> bool" where
  "by_importance a b = not_positive (js_minus (row_importance b) (row_importance a))"

definition matched_row :: "skill \<Rightarrow> chart_row" where
  "matched_row skill =
     \<lparr>row_name = name skill, row_importance = Finite 100,
      row_confidence = Math_round (js_times (confidence skill) 100),
      row_type = ''matched'', row_color = ''#10B981''\<rparr>"

definition missing_row :: "skill \<Rightarrow> chart_row" where
  "missing_row skill =
     \<lparr>row_name = name skill, row_importance = Math_round (js_times (importance skill) 100),
      row_confidence = Finite 0, row_type = ''missing'', row_color = ''#EF4444''\<rparr>"

definition nice_to_have_row :: "skill \<Rightarrow> chart_row" where
  "nice_to_have_row skill =
     \<lparr>row_name = name skill, row_importance = Math_round (js_times (importance skill) 100),
      row_confidence = Finite 0, row_type = ''nice_to_have'', row_color = ''#3B82F6''\<rparr>"

definition prepareChartData :: "analysis_result \<Rightarrow> chart_row list" where
  "prepareChartData result =
     (let data = map matched_row (matched_skills result)
               @ map missing_row (missing_skills result)
               @ map nice_to_have_row (nice_to_have_skills result)
      in take 15 (sort_by by_importance data))"

text \<open>
  The skills behind the rows of the chart: the entries of the three lists, each with the
  list it stands in, sorted and cut as their rows are.
\<close>

datatype skill_list = Matched | Missing | NiceToHave

fun row_of :: "skill_list \<times> skill \<Rightarrow> chart_row" where
  "row_of (Matched, skill) = matched_row skill"
| "row_of (Missing, skill) = missing_row skill"
| "row_of (NiceToHave, skill) = nice_to_have_row skill"

definition listed_skills :: "analysis_result \<Rightarrow> (skill_list \<times> skill) list" where
  "listed_skills result =
     map (Pair Matched) (matched_skills result)
     @ map (Pair Missing) (missing_skills result)
     @ map (Pair NiceToHave) (nice_to_have_skills result)"

definition chart_skills :: "analysis_result \<Rightarrow> (skill_list \<times> skill) list" where
  "chart_skills result =
     take 15 (sort_by (\<lambda>a b. by_importance (row_of a) (row_of b)) (listed_skills result))"

section \<open>The analysis engine\<close>

text \<open>
  Modelled from the spec: the analysis engine (skill ontology, skill extractor, skill
  classification of the scoring engine, orchestrator) is the Python back end, which is not
  among the sources. The definitions of this section follow sections 3, 4.1, 4.3 (step 2),
  6 and 7 of the specification. What the specification leaves open is a parameter: the
  three detectors, the confidence of a group of detections, the importance formula and the
  match threshold. Scores, strengths, risks, recommendations and snippets are not modelled.
  First the data model of section 3.
\<close>

record ontology_entry =
  entry_id :: string
  display_name :: string
  aliases :: "string list"
  category :: string
  default_weight :: rat

datatype source = exact | pattern | fuzzy | ner

record skill_mention =
  mention_id :: string
  mention_confidence :: rat
  mention_source :: source
  evidence :: "(string \<times> nat) list"

record normalized_document =
  doc_id :: string
  doc_text :: string
  sections :: "(string \<times> nat \<times> nat) list"

text \<open>
  Modelled from the spec: a detection of one of the three detectors, which are absent with
  the back end: the ontology name or alias it matched, the detector, its confidence and the
  evidence span with its offset. The configuration holds what the specification leaves
  open.
\<close>

record detection =
  matched_alias :: string
  det_source :: source
  det_confidence :: rat
  det_span :: "string \<times> nat"

record engine_config =
  detect :: "string \<Rightarrow> detection list"
  group_confidence :: "detection list \<Rightarrow> rat"
  importance_of :: "ontology_entry \<Rightarrow> skill_mention \<Rightarrow> bool \<Rightarrow> rat"
  match_threshold :: rat

datatype engine_error = EmptyInputError

text \<open>
  Modelled from the spec: the ontology lookup of the absent skill extractor. A name or
  alias stands for the ontology entry that lists it; of several, for the one with the
  higher default weight, the earlier one on a tie. A term that matches nothing is dropped.
\<close>

definition names_of :: "ontology_entry \<Rightarrow> string list" where
  "names_of e = display_name e # aliases e"

fun heaviest :: "ontology_entry \<Rightarrow> ontology_entry list \<Rightarrow> ontology_entry" where
  "heaviest e [] = e"
| "heaviest e (x # xs) = heaviest (if default_weight e < default_weight x then x else e) xs"

definition resolve :: "ontology_entry list \<Rightarrow> string \<Rightarrow> ontology_entry option" where
  "resolve ontology a =
     (case filter (\<lambda>e. a \<in> set (names_of e)) ontology of
        [] \<Rightarrow> None
      | e # es \<Rightarrow> Some (heaviest e es))"

fun resolve_all ::
  "ontology_entry list \<Rightarrow> detection list \<Rightarrow> (string \<times> detection) list" where
  "resolve_all ontology [] = []"
| "resolve_all ontology (d # ds) =
     (case resolve ontology (matched_alias d) of
        None \<Rightarrow> resolve_all ontology ds
      | Some e \<Rightarrow> (entry_id e, d) # resolve_all ontology ds)"

text \<open>
  Modelled from the spec: the merge policy of the absent skill extractor. Detections are
  grouped by canonical id, one mention per id. The reported source is that of the most
  confident detection; the evidence spans are taken most confident first, one per offset,
  three at most. Empty text gives no mention.
\<close>

fun best :: "detection \<Rightarrow> detection list \<Rightarrow> detection" where
  "best d [] = d"
| "best d (x # xs) = best (if det_confidence d < det_confidence x then x else d) xs"

fun dedup_offsets :: "(string \<times> nat) list \<Rightarrow> (string \<times> nat) list" where
  "dedup_offsets [] = []"
| "dedup_offsets (s # ss) = s # dedup_offsets (filter (\<lambda>t. snd t \<noteq> snd s) ss)"

definition confidence_order :: "detection \<Rightarrow> detection \<Rightarrow> int" where
  "confidence_order a b =
     (if det_confidence b < det_confidence a then - 1
      else if det_confidence a < det_confidence b then 1 else 0)"

definition mention_of :: "engine_config \<Rightarrow> string \<Rightarrow> detection list \<Rightarrow> skill_mention" where
  "mention_of cfg i g =
     \<lparr>mention_id = i,
      mention_confidence = group_confidence cfg g,
      mention_source = (case g of [] \<Rightarrow> exact | d # ds \<Rightarrow> det_source (best d ds)),
      evidence =
        take 3 (dedup_offsets (map det_span (sort_by (\<lambda>a b. confidence_order a b \<le> 0) g)))\<rparr>"

definition merge :: "engine_config \<Rightarrow> (string \<times> detection) list \<Rightarrow> skill_mention list" where
  "merge cfg rs =
     map (\<lambda>i. mention_of cfg i (map snd (filter (\<lambda>r. fst r = i) rs)))
       (remdups (map fst rs))"

definition extract_skills :: "engine_config \<Rightarrow> ontology_entry list \<Rightarrow> string \<Rightarrow> skill_mention list" where
  "extract_skills cfg ontology txt =
     (if txt = [] then [] else merge cfg (resolve_all ontology (detect cfg txt)))"

text \<open>
  Modelled from the spec: step 2 of the absent scoring engine. A job-side skill is matched
  when the resume mentions the same canonical id with confidence at least the match
  threshold; otherwise it is nice to have when its job-side evidence lies in a "preferred"
  or "nice to have" section, and missing when not. A matched skill carries the resume-side
  confidence, every skill its job-side importance.
\<close>

definition is_matched :: "engine_config \<Rightarrow> skill_mention list \<Rightarrow> skill_mention \<Rightarrow> bool" where
  "is_matched cfg resume_mentions j =
     list_ex (\<lambda>r. mention_id r = mention_id j \<and> match_threshold cfg \<le> mention_confidence r)
       resume_mentions"

definition in_preferred :: "normalized_document \<Rightarrow> skill_mention \<Rightarrow> bool" where
  "in_preferred job j =
     list_ex (\<lambda>(sec, lo, hi).
         (sec = ''preferred'' \<or> sec = ''nice to have'')
         \<and> list_ex (\<lambda>(span, off). lo \<le> off \<and> off < hi) (evidence j))
       (sections job)"

definition resume_confidence :: "skill_mention list \<Rightarrow> string \<Rightarrow> rat" where
  "resume_confidence resume_mentions i =
     (case filter (\<lambda>r. mention_id r = i) resume_mentions of
        [] \<Rightarrow> 0
      | r # rs \<Rightarrow> mention_confidence r)"

definition entry_of :: "ontology_entry list \<Rightarrow> string \<Rightarrow> ontology_entry" where
  "entry_of ontology i =
     (case filter (\<lambda>e. entry_id e = i) ontology of
        [] \<Rightarrow> \<lparr>entry_id = i, display_name = i, aliases = [], category = [], default_weight = 0\<rparr>
      | e # es \<Rightarrow> e)"

definition verdict ::
  "engine_config \<Rightarrow> ontology_entry list \<Rightarrow> normalized_document \<Rightarrow> skill_mention list
    \<Rightarrow> skill_mention \<Rightarrow> skill" where
  "verdict cfg ontology job resume_mentions j =
     \<lparr>canonical_id = mention_id j,
      name = display_name (entry_of ontology (mention_id j)),
      confidence = (if is_matched cfg resume_mentions j
                    then resume_confidence resume_mentions (mention_id j) else 0),
      importance = importance_of cfg (entry_of ontology (mention_id j)) j (in_preferred job j)\<rparr>"

text \<open>
  Modelled from the spec: the order of the three lists of the absent scoring engine, by
  importance, ties broken by the alphabetical order of canonical ids.
\<close>

fun alphabetical :: "string \<Rightarrow> string \<Rightarrow> int" where
  "alphabetical [] [] = 0"
| "alphabetical [] (y # ys) = - 1"
| "alphabetical (x # xs) [] = 1"
| "alphabetical (x # xs) (y # ys) =
     (if (of_char x :: nat) < of_char y then - 1
      else if (of_char y :: nat) < of_char x then 1
      else alphabetical xs ys)"

definition importance_order :: "skill \<Rightarrow> skill \<Rightarrow> int" where
  "importance_order a b =
     (if importance b < importance a then - 1
      else if importance a < importance b then 1
      else alphabetical (canonical_id a) (canonical_id b))"

definition classify ::
  "engine_config \<Rightarrow> ontology_entry list \<Rightarrow> normalized_document \<Rightarrow> skill_mention list
    \<Rightarrow> skill_mention list \<Rightarrow> analysis_result" where
  "classify cfg ontology job resume_mentions job_mentions =
     \<lparr>matched_skills =
        sort_by (\<lambda>a b. importance_order a b \<le> 0)
          (map (verdict cfg ontology job resume_mentions)
             (filter (\<lambda>j. is_matched cfg resume_mentions j) job_mentions)),
      missing_skills =
        sort_by (\<lambda>a b. importance_order a b \<le> 0)
          (map (verdict cfg ontology job resume_mentions)
             (filter (\<lambda>j. \<not> is_matched cfg resume_mentions j \<and> \<not> in_preferred job j)
                job_mentions)),
      nice_to_have_skills =
        sort_by (\<lambda>a b. importance_order a b \<le> 0)
          (map (verdict cfg ontology job resume_mentions)
             (filter (\<lambda>j. \<not> is_matched cfg resume_mentions j \<and> in_preferred job j)
                job_mentions))\<rparr>"

text \<open>
  Modelled from the spec: the blank test of the absent engine ("empty or whitespace-only",
  sections 4.2 and 7). The engine is Python, whose \<open>str.isspace\<close> and \<open>str.strip\<close> count
  as white space, among the code units below 256, the characters 9 to 13, 28 to 32, 133
  (next line) and 160.
\<close>

definition is_space :: "char \<Rightarrow> bool" where
  "is_space c =
     (c \<in> set [CHR 0x09, CHR 0x0A, CHR 0x0B, CHR 0x0C, CHR 0x0D, CHR 0x1C, CHR 0x1D,
                CHR 0x1E, CHR 0x1F, CHR 0x20, CHR 0x85, CHR 0xA0])"

definition whitespace_only :: "string \<Rightarrow> bool" where
  "whitespace_only s = list_all is_space s"

text \<open>
  Modelled from the spec: the absent orchestrator. A document with no text at all is a
  fatal \<open>EmptyInputError\<close>; otherwise both documents are extracted and the job-side
  skills classified. A pasted text is the text of its document.
\<close>

definition analyze ::
  "engine_config \<Rightarrow> ontology_entry list \<Rightarrow> normalized_document \<Rightarrow> normalized_document
    \<Rightarrow> engine_error + analysis_result" where
  "analyze cfg ontology resume_doc job_doc =
     (if whitespace_only (doc_text resume_doc) \<or> whitespace_only (doc_text job_doc)
      then Inl EmptyInputError
      else Inr (classify cfg ontology job_doc
                  (extract_skills cfg ontology (doc_text resume_doc))
                  (extract_skills cfg ontology (doc_text job_doc))))"

text \<open>
  Modelled from the spec: a scenario after that of section 8. The job requires Python and
  SQL, with importance 0.75 and 0.5, and prefers Docker; the resume mentions Python only.
  The detectors find Python twice in the job text and a term that is in no ontology entry.
\<close>

definition scenario_ontology :: "ontology_entry list" where
  "scenario_ontology =
     [\<lparr>entry_id = ''python'', display_name = ''Python'', aliases = [''py''],
       category = ''language'', default_weight = 3 / 4\<rparr>,
      \<lparr>entry_id = ''sql'', display_name = ''SQL'', aliases = [''structured query language''],
       category = ''language'', default_weight = 1 / 2\<rparr>,
      \<lparr>entry_id = ''docker'', display_name = ''Docker'', aliases = [],
       category = ''tool'', default_weight = 1 / 4\<rparr>]"

definition scenario_resume :: normalized_document where
  "scenario_resume =
     \<lparr>doc_id = ''r1'', doc_text = ''5 years of Python development'', sections = []\<rparr>"

definition scenario_job :: normalized_document where
  "scenario_job =
     \<lparr>doc_id = ''j1'', doc_text = ''Requires Python and SQL. Preferred: Docker, py'',
      sections = [(''requirements'', 0, 24), (''preferred'', 25, 46)]\<rparr>"

definition scenario_config :: engine_config where
  "scenario_config =
     \<lparr>detect = (\<lambda>txt.
         if txt = ''5 years of Python development'' then
           [\<lparr>matched_alias = ''Python'', det_source = exact, det_confidence = 15 / 16,
             det_span = (''Python'', 11)\<rparr>]
         else if txt = ''Requires Python and SQL. Preferred: Docker, py'' then
           [\<lparr>matched_alias = ''Python'', det_source = exact, det_confidence = 15 / 16,
             det_span = (''Python'', 9)\<rparr>,
            \<lparr>matched_alias = ''SQL'', det_source = exact, det_confidence = 15 / 16,
             det_span = (''SQL'', 20)\<rparr>,
            \<lparr>matched_alias = ''Docker'', det_source = ner, det_confidence = 3 / 4,
             det_span = (''Docker'', 36)\<rparr>,
            \<lparr>matched_alias = ''py'', det_source = fuzzy, det_confidence = 5 / 8,
             det_span = (''py'', 44)\<rparr>,
            \<lparr>matched_alias = ''Requires'', det_source = ner, det_confidence = 3 / 4,
             det_span = (''Requires'', 0)\<rparr>]
         else []),
      group_confidence = (\<lambda>g. case g of [] \<Rightarrow> 0 | d # ds \<Rightarrow> det_confidence (best d ds)),
      importance_of = (\<lambda>e m p. default_weight e),
      match_threshold = 1 / 2\<rparr>"

section \<open>Theorems\<close>

lemma rethrow_id: "rethrow r = r"
  by (cases r) (simp_all add: rethrow_def)

text \<open>
  C1. For every call \<open>analyzeResume(resumeId, jdId, targetRole)\<close> the request is a POST to
  \<open>/api/v1/analyze\<close> whose payload has \<open>resume_id\<close> equal to \<open>resumeId\<close> and \<open>jd_id\<close> equal
  to \<open>jdId\<close>, and has \<open>target_role\<close>, equal to \<open>targetRole\<close>, exactly when \<open>targetRole\<close> is
  truthy; for \<open>null\<close>, \<open>undefined\<close> and the empty string the field is absent.
\<close>

theorem analyzeResume_payload:
  "http_method (fst (analyzeResume resumeId jdId targetRole out)) = ''POST''
   \<and> url (fst (analyzeResume resumeId jdId targetRole out)) = ''/api/v1/analyze''
   \<and> own (data (fst (analyzeResume resumeId jdId targetRole out))) ''resume_id'' = Some resumeId
   \<and> own (data (fst (analyzeResume resumeId jdId targetRole out))) ''jd_id'' = Some jdId
   \<and> own (data (fst (analyzeResume resumeId jdId targetRole out))) ''target_role''
       = (if truthy targetRole then Some targetRole else None)
   \<and> own (data (fst (analyzeResume resumeId jdId JNull out))) ''target_role'' = None
   \<and> own (data (fst (analyzeResume resumeId jdId JUndefined out))) ''target_role'' = None
   \<and> own (data (fst (analyzeResume resumeId jdId (JStr []) out))) ''target_role'' = None"
  by (simp add: analyzeResume_def analyze_payload_def)

theorem analyzeResume_payload_witness:
  "own (data (fst (analyzeResume (JStr ''r1'') (JStr ''j1'') (JStr ''Data Scientist'')
      (Fulfilled JNull)))) ''target_role'' = Some (JStr ''Data Scientist'')
   \<and> own (data (fst (analyzeResume (JStr ''r1'') (JStr ''j1'') (JBool False)
      (Fulfilled JNull)))) ''target_role'' = None"
  using analyzeResume_payload [of "JStr ''r1''" "JStr ''j1''" "JStr ''Data Scientist''" "Fulfilled JNull"]
    analyzeResume_payload [of "JStr ''r1''" "JStr ''j1''" "JBool False" "Fulfilled JNull"]
  by simp

lemma response_rejected_spec:
  "response_rejected err = throw_new_Error (spec_error_message err)"
  by (simp add: response_rejected_def spec_error_message_def js_or_def Let_def)

lemma api_request_rejected:
  "api_request (Rejected err) = Inl (throw_new_Error (spec_error_message err))"
  by (simp add: api_request_def response_rejected_spec)

lemma spec_error_message_truthy: "truthy (spec_error_message err)"
  by (simp add: spec_error_message_def)

lemma throw_new_Error_truthy:
  "truthy v \<Longrightarrow>
   throw_new_Error v =
     (case ToString v of
        Some m \<Rightarrow> Error m
      | None \<Rightarrow> TypeError ''Cannot convert object to primitive value'')"
  by (cases v) (simp_all add: throw_new_Error_def)

text \<open>
  C2, as stated, fails: an API call can fail although its request succeeded. When the
  server answers the history request with a \<open>null\<close> body, \<open>getHistory\<close> throws the
  \<open>TypeError\<close> of reading \<open>items\<close>, which the response interceptor never sees; the
  message is none of the priority list, by which it would be 'Server error'.
\<close>

theorem getHistory_null_body_counterexample:
  "snd (getHistory (Fulfilled (JObj [(''status'', JNum ''200''), (''data'', JNull)])))
     = Inl (TypeError ''Cannot read properties of null (reading 'items')'')
   \<and> snd (getHistory (Fulfilled (JObj [(''status'', JNum ''200''), (''data'', JNull)])))
     \<noteq> Inl (Error ''Server error'')"
  by (simp add: getHistory_def api_request_def response_fulfilled_def get_prop_def rethrow_def)

text \<open>
  C2, amended. Every API call whose request is rejected throws exactly one error to its
  caller. The value chosen by the fixed priority \<open>spec_error_message\<close> is never falsy, and
  the error is the \<open>Error\<close> whose message is the string form of that value: the value
  itself when it is a string. Only when the value has no string form (an object with an own
  \<open>toString\<close> property, or an array holding one) the error is the \<open>TypeError\<close> of the
  conversion.
\<close>

theorem api_rejected_single_error:
  "snd (uploadResume formData (Rejected err)) = Inl (throw_new_Error (spec_error_message err))
   \<and> snd (uploadJobDescription formData (Rejected err))
       = Inl (throw_new_Error (spec_error_message err))
   \<and> snd (analyzeResume resumeId jdId targetRole (Rejected err))
       = Inl (throw_new_Error (spec_error_message err))
   \<and> snd (getHistory (Rejected err)) = Inl (throw_new_Error (spec_error_message err))
   \<and> snd (getAnalysis analysisId (Rejected err))
       = Inl (throw_new_Error (spec_error_message err))
   \<and> snd (deleteAnalysis analysisId (Rejected err))
       = Inl (throw_new_Error (spec_error_message err))
   \<and> snd (deleteDocument documentId (Rejected err))
       = Inl (throw_new_Error (spec_error_message err))
   \<and> snd (healthCheck (Rejected err)) = Inl (throw_new_Error (spec_error_message err))
   \<and> snd (getSystemStats (Rejected err)) = Inl (throw_new_Error (spec_error_message err))
   \<and> snd (getApiInfo (Rejected err)) = Inl (throw_new_Error (spec_error_message err))
   \<and> truthy (spec_error_message err)
   \<and> throw_new_Error (spec_error_message err)
       = (case ToString (spec_error_message err) of
            Some m \<Rightarrow> Error m
          | None \<Rightarrow> TypeError ''Cannot convert object to primitive value'')
   \<and> (\<forall>m. spec_error_message err = JStr m
          \<longrightarrow> throw_new_Error (spec_error_message err) = Error m)"
  using throw_new_Error_truthy [OF spec_error_message_truthy [of err]]
  by (simp add: uploadResume_def uploadJobDescription_def analyzeResume_def getHistory_def
      getAnalysis_def deleteAnalysis_def deleteDocument_def healthCheck_def getSystemStats_def
      getApiInfo_def rethrow_id api_request_rejected spec_error_message_truthy
      throw_new_Error_def)

theorem api_rejected_single_error_witness:
  "snd (analyzeResume (JStr ''r1'') (JStr ''j1'') JNull
      (Rejected \<lparr>response = JObj [(''status'', JNum ''404''),
                                   (''data'', JObj [(''detail'', JStr ''Resume not found'')])],
                 request = JObj [], message = JStr ''Request failed with status code 404''\<rparr>))
     = Inl (Error ''Resume not found'')
   \<and> snd (getHistory
      (Rejected \<lparr>response = JObj [(''status'', JNum ''500''), (''data'', JStr [])],
                 request = JObj [], message = JStr ''Request failed with status code 500''\<rparr>))
     = Inl (Error ''Server error'')
   \<and> snd (healthCheck
      (Rejected \<lparr>response = JUndefined, request = JObj [], message = JStr ''Network Error''\<rparr>))
     = Inl (Error ''No response from server. Please check your connection.'')
   \<and> snd (getApiInfo
      (Rejected \<lparr>response = JUndefined, request = JUndefined, message = JStr ''bad config''\<rparr>))
     = Inl (Error ''bad config'')
   \<and> snd (getAnalysis ''a1''
      (Rejected \<lparr>response = JObj [(''status'', JNum ''422''),
                                   (''data'', JObj [(''detail'', JObj [(''toString'', JStr ''x'')])])],
                 request = JObj [], message = JStr ''Request failed with status code 422''\<rparr>))
     = Inl (TypeError ''Cannot convert object to primitive value'')"
  using api_rejected_single_error [of undefined
      "\<lparr>response = JObj [(''status'', JNum ''404''),
                         (''data'', JObj [(''detail'', JStr ''Resume not found'')])],
        request = JObj [], message = JStr ''Request failed with status code 404''\<rparr>"
      "JStr ''r1''" "JStr ''j1''" JNull]
    api_rejected_single_error [of undefined
      "\<lparr>response = JObj [(''status'', JNum ''500''), (''data'', JStr [])],
        request = JObj [], message = JStr ''Request failed with status code 500''\<rparr>"]
    api_rejected_single_error [of undefined
      "\<lparr>response = JUndefined, request = JObj [], message = JStr ''Network Error''\<rparr>"]
    api_rejected_single_error [of undefined
      "\<lparr>response = JUndefined, request = JUndefined, message = JStr ''bad config''\<rparr>"]
    api_rejected_single_error [of undefined
      "\<lparr>response = JObj [(''status'', JNum ''422''),
                         (''data'', JObj [(''detail'', JObj [(''toString'', JStr ''x'')])])],
        request = JObj [], message = JStr ''Request failed with status code 422''\<rparr>"
      undefined undefined undefined "''a1''"]
  by (simp add: spec_error_message_def opt_prop_def get_prop_def)

lemma history_analysisReducer:
  "type a \<noteq> ''SET_HISTORY'' \<Longrightarrow> history (analysisReducer s a) = history s"
  by (simp add: analysisReducer_def initialState_def)

text \<open>
  C10. Dispatching \<open>RESET\<close> (the \<open>reset()\<close> operation) puts \<open>resume\<close>, \<open>jobDescription\<close>,
  \<open>analysis\<close>, \<open>loading\<close>, \<open>error\<close> and \<open>currentStep\<close> back to their initial values and
  leaves \<open>history\<close> as it was; and for every action whose type is not \<open>SET_HISTORY\<close> the
  reducer leaves \<open>history\<close> unchanged.
\<close>

theorem reset_restores_all_but_history:
  "reset s = initialState\<lparr>history := history s\<rparr>
   \<and> resume (reset s) = JNull \<and> jobDescription (reset s) = JNull
   \<and> analysis (reset s) = JNull \<and> loading (reset s) = JBool False
   \<and> error (reset s) = JNull \<and> currentStep (reset s) = JStr ''upload''
   \<and> history (reset s) = history s
   \<and> (\<forall>a. type a \<noteq> ''SET_HISTORY'' \<longrightarrow> history (analysisReducer s a) = history s)"
  by (simp add: reset_def dispatch_def history_analysisReducer)
    (simp add: analysisReducer_def initialState_def)

theorem reset_restores_all_but_history_witness:
  "reset \<lparr>resume = JObj [(''document_id'', JStr ''r1'')], jobDescription = JNull,
          analysis = JNull, history = JArr [JObj [(''score'', JNum ''71'')]],
          loading = JBool True, error = JStr ''Server error'', currentStep = JStr ''upload''\<rparr>
     = \<lparr>resume = JNull, jobDescription = JNull, analysis = JNull,
        history = JArr [JObj [(''score'', JNum ''71'')]],
        loading = JBool False, error = JNull, currentStep = JStr ''upload''\<rparr>
   \<and> history (analysisReducer
        \<lparr>resume = JObj [(''document_id'', JStr ''r1'')], jobDescription = JNull,
         analysis = JNull, history = JArr [JObj [(''score'', JNum ''71'')]],
         loading = JBool True, error = JStr ''Server error'', currentStep = JStr ''upload''\<rparr>
        \<lparr>type = ''SET_ERROR'', payload = JStr ''x''\<rparr>)
     = JArr [JObj [(''score'', JNum ''71'')]]"
  using reset_restores_all_but_history
    [of "\<lparr>resume = JObj [(''document_id'', JStr ''r1'')], jobDescription = JNull,
          analysis = JNull, history = JArr [JObj [(''score'', JNum ''71'')]],
          loading = JBool True, error = JStr ''Server error'', currentStep = JStr ''upload''\<rparr>"]
  by (simp add: initialState_def)

lemma performAnalysis_try_missing:
  "\<not> truthy (resume s) \<or> \<not> truthy (jobDescription s) \<Longrightarrow>
   performAnalysis_try s targetRole analyzeOut historyOut =
     (Inl (Error ''Both resume and job description are required''), [], s)"
  by (simp add: performAnalysis_try_def throw_new_Error_def)

lemma performAnalysis_missing:
  assumes "\<not> truthy (resume s) \<or> \<not> truthy (jobDescription s)"
  shows "performAnalysis s targetRole analyzeOut historyOut =
     (Inl (Error ''Both resume and job description are required''), [],
      s\<lparr>error := JStr ''Both resume and job description are required'',
        loading := JBool False, currentStep := JStr ''upload''\<rparr>)"
  by (simp add: performAnalysis_def performAnalysis_try_missing [OF assms] dispatch_def
      analysisReducer_def)

text \<open>
  C3, as stated, fails: when \<open>performAnalysis\<close> is invoked with no resume while an upload
  has set \<open>loading\<close>, the call also resets \<open>loading\<close>, so more than the \<open>error\<close> field
  changes.
\<close>

theorem performAnalysis_missing_counterexample:
  "resume (initialState\<lparr>loading := JBool True\<rparr>) = JNull
   \<and> snd (snd (performAnalysis (initialState\<lparr>loading := JBool True\<rparr>) JNull
         (Fulfilled JNull) (Fulfilled JNull)))
       \<noteq> (initialState\<lparr>loading := JBool True\<rparr>)
           \<lparr>error := JStr ''Both resume and job description are required''\<rparr>"
proof -
  have "\<not> truthy (resume (initialState\<lparr>loading := JBool True\<rparr>))
      \<or> \<not> truthy (jobDescription (initialState\<lparr>loading := JBool True\<rparr>))"
    by (simp add: initialState_def)
  from performAnalysis_missing [OF this] show ?thesis
    by (simp add: initialState_def)
qed

text \<open>
  C3, amended. If \<open>performAnalysis\<close> is invoked while \<open>state.resume\<close> or
  \<open>state.jobDescription\<close> is \<open>null\<close>, it throws
  \<open>Error('Both resume and job description are required')\<close> without issuing any HTTP request,
  and the state afterwards is the state before with \<open>error\<close> set to that message,
  \<open>currentStep\<close> set to \<open>'upload'\<close> and \<open>loading\<close> set to \<open>false\<close>: \<open>resume\<close>,
  \<open>jobDescription\<close>, \<open>analysis\<close> and \<open>history\<close> are unchanged.
\<close>

theorem performAnalysis_missing_document:
  assumes "resume s = JNull \<or> jobDescription s = JNull"
  shows "performAnalysis s targetRole analyzeOut historyOut =
     (Inl (Error ''Both resume and job description are required''), [],
      s\<lparr>error := JStr ''Both resume and job description are required'',
        currentStep := JStr ''upload'', loading := JBool False\<rparr>)"
proof -
  from assms have "\<not> truthy (resume s) \<or> \<not> truthy (jobDescription s)"
    by auto
  from performAnalysis_missing [OF this] show ?thesis
    by simp
qed

theorem performAnalysis_missing_document_witness:
  "performAnalysis
     \<lparr>resume = JObj [(''document_id'', JStr ''r1'')], jobDescription = JNull,
      analysis = JNull, history = JArr [], loading = JBool True, error = JNull,
      currentStep = JStr ''upload''\<rparr>
     (JStr ''Data Scientist'') (Fulfilled JNull) (Fulfilled JNull)
   = (Inl (Error ''Both resume and job description are required''), [],
      \<lparr>resume = JObj [(''document_id'', JStr ''r1'')], jobDescription = JNull,
       analysis = JNull, history = JArr [], loading = JBool False,
       error = JStr ''Both resume and job description are required'',
       currentStep = JStr ''upload''\<rparr>)"
  using performAnalysis_missing_document
    [of "\<lparr>resume = JObj [(''document_id'', JStr ''r1'')], jobDescription = JNull,
          analysis = JNull, history = JArr [], loading = JBool True, error = JNull,
          currentStep = JStr ''upload''\<rparr>"
        "JStr ''Data Scientist''" "Fulfilled JNull" "Fulfilled JNull"]
  by simp

lemma band_conditions:
  "in_0_100 s \<Longrightarrow>
     (ge s 80 \<and> \<not> (ge s 60 \<and> lt s 80) \<and> \<not> lt s 60)
   \<or> (\<not> ge s 80 \<and> (ge s 60 \<and> lt s 80) \<and> \<not> lt s 60)
   \<or> (\<not> ge s 80 \<and> \<not> (ge s 60 \<and> lt s 80) \<and> lt s 60)"
  by (cases s) auto

lemma counters_sum:
  "\<forall>item \<in> set h. in_0_100 (score item) \<Longrightarrow>
   strongMatches h + moderateMatches h + lowMatches h = length h"
proof (induction h)
  case Nil
  show ?case by (simp add: strongMatches_def moderateMatches_def lowMatches_def)
next
  case (Cons item h)
  then have ih: "strongMatches h + moderateMatches h + lowMatches h = length h"
    by simp
  from Cons.prems have "in_0_100 (score item)" by simp
  from band_conditions [OF this] ih show ?case
    by (auto simp: strongMatches_def moderateMatches_def lowMatches_def)
qed

lemma getScoreBand_cases:
  "in_0_100 s \<Longrightarrow>
     (HistoryPage_getScoreBand s = ''Strong'' \<longleftrightarrow> ge s 80)
   \<and> (HistoryPage_getScoreBand s = ''Moderate'' \<longleftrightarrow> ge s 60 \<and> lt s 80)
   \<and> (HistoryPage_getScoreBand s = ''Low'' \<longleftrightarrow> lt s 60)"
  by (cases s) (auto simp: HistoryPage_getScoreBand_def)

text \<open>
  C6. For every history list whose items each carry a score in \<open>[0,100]\<close>, the three
  summary counters (score at least 80; at least 60 and below 80; below 60) add up to the
  number of items, and \<open>getScoreBand\<close> gives each such score the one band whose counter
  counts it: 'Strong', 'Moderate' or 'Low'.
\<close>

theorem history_counters_partition:
  assumes "\<forall>item \<in> set h. in_0_100 (score item)"
  shows "strongMatches h + moderateMatches h + lowMatches h = length h
    \<and> (\<forall>item \<in> set h.
          (HistoryPage_getScoreBand (score item) = ''Strong'' \<longleftrightarrow> ge (score item) 80)
        \<and> (HistoryPage_getScoreBand (score item) = ''Moderate''
             \<longleftrightarrow> ge (score item) 60 \<and> lt (score item) 80)
        \<and> (HistoryPage_getScoreBand (score item) = ''Low'' \<longleftrightarrow> lt (score item) 60)
        \<and> ((ge (score item) 80 \<and> \<not> (ge (score item) 60 \<and> lt (score item) 80)
               \<and> \<not> lt (score item) 60)
           \<or> (\<not> ge (score item) 80 \<and> (ge (score item) 60 \<and> lt (score item) 80)
               \<and> \<not> lt (score item) 60)
           \<or> (\<not> ge (score item) 80 \<and> \<not> (ge (score item) 60 \<and> lt (score item) 80)
               \<and> lt (score item) 60)))"
  using assms counters_sum [OF assms] getScoreBand_cases band_conditions
  by blast

theorem history_counters_partition_witness:
  "strongMatches
     [\<lparr>analysis_id = JStr ''a1'', resume_id = JStr ''r1'', jd_id = JStr ''j1'',
       score = Finite 85, created_at = JNull\<rparr>,
      \<lparr>analysis_id = JStr ''a2'', resume_id = JStr ''r1'', jd_id = JStr ''j2'',
       score = Finite 60, created_at = JNull\<rparr>,
      \<lparr>analysis_id = JStr ''a3'', resume_id = JStr ''r2'', jd_id = JStr ''j2'',
       score = Finite (119 / 2), created_at = JNull\<rparr>]
   + moderateMatches
     [\<lparr>analysis_id = JStr ''a1'', resume_id = JStr ''r1'', jd_id = JStr ''j1'',
       score = Finite 85, created_at = JNull\<rparr>,
      \<lparr>analysis_id = JStr ''a2'', resume_id = JStr ''r1'', jd_id = JStr ''j2'',
       score = Finite 60, created_at = JNull\<rparr>,
      \<lparr>analysis_id = JStr ''a3'', resume_id = JStr ''r2'', jd_id = JStr ''j2'',
       score = Finite (119 / 2), created_at = JNull\<rparr>]
   + lowMatches
     [\<lparr>analysis_id = JStr ''a1'', resume_id = JStr ''r1'', jd_id = JStr ''j1'',
       score = Finite 85, created_at = JNull\<rparr>,
      \<lparr>analysis_id = JStr ''a2'', resume_id = JStr ''r1'', jd_id = JStr ''j2'',
       score = Finite 60, created_at = JNull\<rparr>,
      \<lparr>analysis_id = JStr ''a3'', resume_id = JStr ''r2'', jd_id = JStr ''j2'',
       score = Finite (119 / 2), created_at = JNull\<rparr>]
   = 3
   \<and> HistoryPage_getScoreBand (Finite 85) = ''Strong''
   \<and> HistoryPage_getScoreBand (Finite 60) = ''Moderate''
   \<and> HistoryPage_getScoreBand (Finite (119 / 2)) = ''Low''"
proof -
  have "\<forall>item \<in> set
     [\<lparr>analysis_id = JStr ''a1'', resume_id = JStr ''r1'', jd_id = JStr ''j1'',
       score = Finite 85, created_at = JNull\<rparr>,
      \<lparr>analysis_id = JStr ''a2'', resume_id = JStr ''r1'', jd_id = JStr ''j2'',
       score = Finite 60, created_at = JNull\<rparr>,
      \<lparr>analysis_id = JStr ''a3'', resume_id = JStr ''r2'', jd_id = JStr ''j2'',
       score = Finite (119 / 2), created_at = JNull\<rparr>]. in_0_100 (score item)"
    by simp
  from history_counters_partition [OF this] show ?thesis
    by simp
qed

text \<open>
  C9. For every score value the two classifiers agree: \<open>HistoryPage\<close>'s \<open>getScoreBand\<close>
  returns 'Strong', 'Moderate', 'Low' exactly when \<open>AnalysisResults\<close>'s returns
  'Strong Match', 'Moderate Match', 'Low Match', and both \<open>getScoreColor\<close> functions switch
  at the same thresholds, 80 and 60.
\<close>

theorem score_bands_agree:
  "(HistoryPage_getScoreBand s = ''Strong''
      \<longleftrightarrow> AnalysisResults_getScoreBand s = ''Strong Match'')
   \<and> (HistoryPage_getScoreBand s = ''Moderate''
      \<longleftrightarrow> AnalysisResults_getScoreBand s = ''Moderate Match'')
   \<and> (HistoryPage_getScoreBand s = ''Low''
      \<longleftrightarrow> AnalysisResults_getScoreBand s = ''Low Match'')
   \<and> (HistoryPage_getScoreColor s = ''text-green-600 bg-green-100'' \<longleftrightarrow> ge s 80)
   \<and> (AnalysisResults_getScoreColor s = ''text-green-600'' \<longleftrightarrow> ge s 80)
   \<and> (HistoryPage_getScoreColor s = ''text-yellow-600 bg-yellow-100''
      \<longleftrightarrow> ge s 60 \<and> \<not> ge s 80)
   \<and> (AnalysisResults_getScoreColor s = ''text-yellow-600'' \<longleftrightarrow> ge s 60 \<and> \<not> ge s 80)
   \<and> (HistoryPage_getScoreColor s = ''text-red-600 bg-red-100''
      \<longleftrightarrow> \<not> ge s 60 \<and> \<not> ge s 80)
   \<and> (AnalysisResults_getScoreColor s = ''text-red-600'' \<longleftrightarrow> \<not> ge s 60 \<and> \<not> ge s 80)"
  by (simp add: HistoryPage_getScoreBand_def AnalysisResults_getScoreBand_def
      HistoryPage_getScoreColor_def AnalysisResults_getScoreColor_def)












lemma handleFile_accepts_iff:
  "selectedFile (snd (handleFile c f)) = Some f \<and> fst (handleFile c f) = []
   \<longleftrightarrow> js_includes (acceptedTypes c)
         (''.'' @ toLowerCase (last (split (CHR ''.'') (file_name f))))
       \<and> file_size f \<le> (if js_includes (acceptedTypes c) ''.pdf''
                          then 6 * 1024 * 1024 else 3 * 1024 * 1024)"
  by (auto simp: handleFile_def Let_def)

text \<open>
  C8 asks that the job-description uploader reject files above 3MB. It does not: its
  accepted types contain \<open>.pdf\<close>, so \<open>handleFile\<close> takes the 6MB cap, and a 4MB text file
  is selected without an alert.
\<close>

theorem handleFile_jobDescription_4MB:
  "handleFile jobDescriptionUpload \<lparr>file_name = ''job.txt'', file_size = 4 * 1024 * 1024\<rparr>
   = ([], jobDescriptionUpload
            \<lparr>selectedFile := Some \<lparr>file_name = ''job.txt'', file_size = 4 * 1024 * 1024\<rparr>\<rparr>)"
  by (simp add: handleFile_def jobDescriptionUpload_def js_includes_def toLowerCase_def
      lower_def Let_def)

lemma matched_row_rounds_the_double:
  "row_confidence (matched_row
     \<lparr>canonical_id = ''python'', name = ''Python'',
      confidence = 8962163258467287 / 9007199254740992, importance = 3 / 4\<rparr>) = Finite 100
   \<and> row_importance (missing_row
     \<lparr>canonical_id = ''sql'', name = ''SQL'', confidence = 0,
      importance = 5134103575202365 / 9007199254740992\<rparr>) = Finite 57"
  by code_simp

lemma mset_insort_by: "mset (insort_by cmp x xs) = add_mset x (mset xs)"
  by (induction xs) simp_all

lemma mset_sort_by: "mset (sort_by cmp xs) = mset xs"
  by (induction xs) (simp_all add: mset_insort_by)

lemma set_sort_by: "set (sort_by cmp xs) = set xs"
  by (metis mset_sort_by set_mset_mset)

lemma distinct_map_sort_by: "distinct (map f (sort_by cmp xs)) = distinct (map f xs)"
proof -
  have "mset (map f (sort_by cmp xs)) = mset (map f xs)"
    by (simp add: mset_sort_by)
  then show ?thesis by (rule mset_eq_imp_distinct_iff)
qed

lemma map_insort_by:
  "map f (insort_by (\<lambda>a b. cmp (f a) (f b)) x xs) = insort_by cmp (f x) (map f xs)"
  by (induction xs) simp_all

lemma map_sort_by: "map f (sort_by (\<lambda>a b. cmp (f a) (f b)) xs) = sort_by cmp (map f xs)"
  by (induction xs) (simp_all add: map_insort_by)

lemma map_row_of_listed_skills:
  "map row_of (listed_skills r) =
     map matched_row (matched_skills r) @ map missing_row (missing_skills r)
     @ map nice_to_have_row (nice_to_have_skills r)"
  by (simp add: listed_skills_def comp_def)

lemma prepareChartData_chart_skills: "prepareChartData r = map row_of (chart_skills r)"
proof -
  have "prepareChartData r = take 15 (sort_by by_importance (map row_of (listed_skills r)))"
    by (simp only: prepareChartData_def Let_def map_row_of_listed_skills)
  also have "\<dots> = take 15 (map row_of
      (sort_by (\<lambda>a b. by_importance (row_of a) (row_of b)) (listed_skills r)))"
    by (simp only: map_sort_by [symmetric])
  also have "\<dots> = map row_of (chart_skills r)"
    by (simp only: chart_skills_def take_map)
  finally show ?thesis .
qed

lemma ids_listed_skills:
  "map (canonical_id \<circ> snd) (listed_skills r) =
     map canonical_id (matched_skills r @ missing_skills r @ nice_to_have_skills r)"
  by (simp add: listed_skills_def comp_def)

lemma distinct_chart_skills:
  assumes "distinct (map canonical_id (matched_skills r @ missing_skills r @ nice_to_have_skills r))"
  shows "distinct (map (canonical_id \<circ> snd) (chart_skills r))"
proof -
  let ?s = "sort_by (\<lambda>a b. by_importance (row_of a) (row_of b)) (listed_skills r)"
  from assms have "distinct (map (canonical_id \<circ> snd) ?s)"
    by (simp only: distinct_map_sort_by ids_listed_skills)
  then have "distinct (take 15 (map (canonical_id \<circ> snd) ?s))"
    by (rule distinct_take)
  then show ?thesis by (simp only: chart_skills_def take_map)
qed

lemma heaviest_in: "heaviest x xs \<in> set (x # xs)"
proof (induction xs arbitrary: x)
  case Nil
  show ?case by simp
next
  case (Cons y ys)
  have "heaviest (if default_weight x < default_weight y then y else x) ys
      \<in> set ((if default_weight x < default_weight y then y else x) # ys)"
    by (rule Cons.IH)
  then show ?case
    by (cases "default_weight x < default_weight y") (simp_all, blast+)
qed

lemma resolve_in_ontology:
  assumes "resolve ontology a = Some e"
  shows "e \<in> set ontology"
proof (cases "filter (\<lambda>e. a \<in> set (names_of e)) ontology")
  case Nil
  with assms show ?thesis by (simp add: resolve_def)
next
  case (Cons x xs)
  with assms have "e = heaviest x xs" by (simp add: resolve_def)
  with heaviest_in [of x xs] have "e \<in> set (filter (\<lambda>e. a \<in> set (names_of e)) ontology)"
    by (simp only: Cons)
  then show ?thesis by (simp only: set_filter) blast
qed

lemma resolve_all_ids: "fst ` set (resolve_all ontology ds) \<subseteq> entry_id ` set ontology"
proof (induction ds)
  case Nil
  show ?case by simp
next
  case (Cons d ds)
  show ?case
  proof (cases "resolve ontology (matched_alias d)")
    case None
    with Cons.IH show ?thesis by simp
  next
    case (Some e)
    then have "entry_id e \<in> entry_id ` set ontology"
      by (intro imageI resolve_in_ontology)
    with Cons.IH Some show ?thesis by simp
  qed
qed

lemma ids_merge: "map mention_id (merge cfg rs) = remdups (map fst rs)"
  by (simp add: merge_def mention_of_def comp_def)

lemma distinct_extract_skills: "distinct (map mention_id (extract_skills cfg ontology txt))"
  by (simp add: extract_skills_def ids_merge)

lemma extract_skills_in_ontology:
  "mention_id ` set (extract_skills cfg ontology txt) \<subseteq> entry_id ` set ontology"
proof -
  have "map mention_id (extract_skills cfg ontology txt)
      = (if txt = [] then [] else remdups (map fst (resolve_all ontology (detect cfg txt))))"
    by (simp add: extract_skills_def ids_merge)
  then have "set (map mention_id (extract_skills cfg ontology txt))
      \<subseteq> fst ` set (resolve_all ontology (detect cfg txt))"
    by (simp split: if_splits)
  with resolve_all_ids [of ontology "detect cfg txt"] show ?thesis
    by (simp only: set_map)
qed

lemma canonical_id_verdict [simp]:
  "canonical_id (verdict cfg ontology job rm j) = mention_id j"
  by (simp add: verdict_def)

lemma ids_classify:
  "mset (map canonical_id (matched_skills (classify cfg ontology job rm jm)
       @ missing_skills (classify cfg ontology job rm jm)
       @ nice_to_have_skills (classify cfg ontology job rm jm)))
   = mset (map mention_id jm)"
proof -
  have "mset (map canonical_id (matched_skills (classify cfg ontology job rm jm)
       @ missing_skills (classify cfg ontology job rm jm)
       @ nice_to_have_skills (classify cfg ontology job rm jm)))
    = image_mset mention_id (filter_mset (\<lambda>j. is_matched cfg rm j) (mset jm))
      + (image_mset mention_id
           (filter_mset (\<lambda>j. \<not> is_matched cfg rm j \<and> \<not> in_preferred job j) (mset jm))
         + image_mset mention_id
           (filter_mset (\<lambda>j. \<not> is_matched cfg rm j \<and> in_preferred job j) (mset jm)))"
    by (simp add: classify_def mset_sort_by multiset.map_comp comp_def)
  also have "\<dots> = mset (map mention_id jm)"
    by (induction jm) auto
  finally show ?thesis .
qed

text \<open>
  C4. For every analysis result, each canonical skill id in \<open>matched_skills\<close>,
  \<open>missing_skills\<close> or \<open>nice_to_have_skills\<close> stands in exactly one of the three lists
  (once), these ids are exactly the ids of the job-side skills, and each is the id of an
  ontology entry; consequently every row of the chart data comes from its own skill: the
  chart is the list of rows of \<open>chart_skills\<close>, whose canonical ids are distinct.
\<close>

theorem analysis_skills_partition:
  assumes "analyze cfg ontology resume_doc job_doc = Inr r"
  shows "distinct (map canonical_id (matched_skills r @ missing_skills r @ nice_to_have_skills r))
    \<and> set (map canonical_id (matched_skills r)) \<inter> set (map canonical_id (missing_skills r)) = {}
    \<and> set (map canonical_id (matched_skills r))
        \<inter> set (map canonical_id (nice_to_have_skills r)) = {}
    \<and> set (map canonical_id (missing_skills r))
        \<inter> set (map canonical_id (nice_to_have_skills r)) = {}
    \<and> set (map canonical_id (matched_skills r @ missing_skills r @ nice_to_have_skills r))
        = mention_id ` set (extract_skills cfg ontology (doc_text job_doc))
    \<and> set (map canonical_id (matched_skills r @ missing_skills r @ nice_to_have_skills r))
        \<subseteq> entry_id ` set ontology
    \<and> prepareChartData r = map row_of (chart_skills r)
    \<and> distinct (map (canonical_id \<circ> snd) (chart_skills r))"
proof -
  let ?jm = "extract_skills cfg ontology (doc_text job_doc)"
  let ?ids = "map canonical_id (matched_skills r @ missing_skills r @ nice_to_have_skills r)"
  from assms have r: "r = classify cfg ontology job_doc
      (extract_skills cfg ontology (doc_text resume_doc)) ?jm"
    by (simp add: analyze_def split: if_splits)
  have m: "mset ?ids = mset (map mention_id ?jm)"
    unfolding r by (rule ids_classify)
  have d: "distinct ?ids"
    using mset_eq_imp_distinct_iff [OF m] distinct_extract_skills [of cfg ontology "doc_text job_doc"]
    by simp
  have s: "set ?ids = mention_id ` set ?jm"
    using mset_eq_setD [OF m] by simp
  have o: "set ?ids \<subseteq> entry_id ` set ontology"
    unfolding s by (rule extract_skills_in_ontology)
  from d have i: "set (map canonical_id (matched_skills r))
        \<inter> set (map canonical_id (missing_skills r)) = {}"
      "set (map canonical_id (matched_skills r))
        \<inter> set (map canonical_id (nice_to_have_skills r)) = {}"
      "set (map canonical_id (missing_skills r))
        \<inter> set (map canonical_id (nice_to_have_skills r)) = {}"
    by auto
  from d have c: "distinct (map (canonical_id \<circ> snd) (chart_skills r))"
    by (rule distinct_chart_skills)
  from d i s o c prepareChartData_chart_skills [of r] show ?thesis
    by (intro conjI)
qed

lemma scenario_result:
  "analyze scenario_config scenario_ontology scenario_resume scenario_job
   = Inr \<lparr>matched_skills =
            [\<lparr>canonical_id = ''python'', name = ''Python'', confidence = 15 / 16,
              importance = 3 / 4\<rparr>],
          missing_skills =
            [\<lparr>canonical_id = ''sql'', name = ''SQL'', confidence = 0, importance = 1 / 2\<rparr>],
          nice_to_have_skills =
            [\<lparr>canonical_id = ''docker'', name = ''Docker'', confidence = 0,
              importance = 1 / 4\<rparr>]\<rparr>"
  by code_simp

lemma scenario_chart:
  "map row_name (prepareChartData
       \<lparr>matched_skills =
          [\<lparr>canonical_id = ''python'', name = ''Python'', confidence = 15 / 16,
            importance = 3 / 4\<rparr>],
        missing_skills =
          [\<lparr>canonical_id = ''sql'', name = ''SQL'', confidence = 0, importance = 1 / 2\<rparr>],
        nice_to_have_skills =
          [\<lparr>canonical_id = ''docker'', name = ''Docker'', confidence = 0,
            importance = 1 / 4\<rparr>]\<rparr>)
   = [''Python'', ''SQL'', ''Docker'']"
  by code_simp

theorem analysis_skills_partition_witness:
  "analyze scenario_config scenario_ontology scenario_resume scenario_job
   = Inr \<lparr>matched_skills =
            [\<lparr>canonical_id = ''python'', name = ''Python'', confidence = 15 / 16,
              importance = 3 / 4\<rparr>],
          missing_skills =
            [\<lparr>canonical_id = ''sql'', name = ''SQL'', confidence = 0, importance = 1 / 2\<rparr>],
          nice_to_have_skills =
            [\<lparr>canonical_id = ''docker'', name = ''Docker'', confidence = 0,
              importance = 1 / 4\<rparr>]\<rparr>
   \<and> distinct [''python'', ''sql'', ''docker'']
   \<and> map (row_name \<circ> row_of) (chart_skills
       \<lparr>matched_skills =
          [\<lparr>canonical_id = ''python'', name = ''Python'', confidence = 15 / 16,
            importance = 3 / 4\<rparr>],
        missing_skills =
          [\<lparr>canonical_id = ''sql'', name = ''SQL'', confidence = 0, importance = 1 / 2\<rparr>],
        nice_to_have_skills =
          [\<lparr>canonical_id = ''docker'', name = ''Docker'', confidence = 0,
            importance = 1 / 4\<rparr>]\<rparr>)
     = [''Python'', ''SQL'', ''Docker'']"
proof -
  note t = analysis_skills_partition [OF scenario_result]
  from t have "distinct [''python'', ''sql'', ''docker'']"
    by simp
  moreover from t scenario_chart have "map (row_name \<circ> row_of) (chart_skills
       \<lparr>matched_skills =
          [\<lparr>canonical_id = ''python'', name = ''Python'', confidence = 15 / 16,
            importance = 3 / 4\<rparr>],
        missing_skills =
          [\<lparr>canonical_id = ''sql'', name = ''SQL'', confidence = 0, importance = 1 / 2\<rparr>],
        nice_to_have_skills =
          [\<lparr>canonical_id = ''docker'', name = ''Docker'', confidence = 0,
            importance = 1 / 4\<rparr>]\<rparr>)
     = [''Python'', ''SQL'', ''Docker'']"
    by simp
  ultimately show ?thesis using scenario_result by blast
qed

end
